theory Spec2Isabelle
  imports Main
begin

section \<open>Values shared by the federation handlers\<close>

text \<open>
  A URL as the handlers use it: the part in front of the query string, the list of
  query parameters in their order (\<open>url.searchParams\<close>) and the fragment.
\<close>

record url =
  origin_path :: string
  searchParams :: "(string \<times> string) list"
  hash :: string

text \<open>
  \<open>URLSearchParams.get\<close>: the value of the first pair with the given name, or null.
\<close>

fun searchParams_get :: "string \<Rightarrow> (string \<times> string) list \<Rightarrow> string option" where
  "searchParams_get n [] = None"
| "searchParams_get n ((k, w) # ps) = (if k = n then Some w else searchParams_get n ps)"

text \<open>\<open>URLSearchParams.delete\<close>: every pair with the given name is removed.\<close>

fun searchParams_delete :: "string \<Rightarrow> (string \<times> string) list \<Rightarrow> (string \<times> string) list" where
  "searchParams_delete n [] = []"
| "searchParams_delete n ((k, w) # ps) =
     (if k = n then searchParams_delete n ps else (k, w) # searchParams_delete n ps)"

text \<open>
  \<open>URLSearchParams.set\<close>: the first pair with the given name takes the new value and
  the other pairs with that name are removed; without such a pair, a new pair is appended.
\<close>

fun searchParams_set :: "string \<Rightarrow> string \<Rightarrow> (string \<times> string) list \<Rightarrow> (string \<times> string) list" where
  "searchParams_set n v [] = [(n, v)]"
| "searchParams_set n v ((k, w) # ps) =
     (if k = n then (n, v) # searchParams_delete n ps else (k, w) # searchParams_set n v ps)"

text \<open>
  An error value thrown by a collaborator, and the JSON document of a request body.
  Both are only passed on by the handlers.
\<close>

datatype jserror = JsError string

datatype json = JsonDoc string

text \<open>
  A request: its URL, its \<open>Accept\<close> header (null when the request has none; otherwise
  the media types the header names with a positive quality, in the order of preference
  the HTTP negotiation library gives them, which is the empty list for a header that
  names none), and what \<open>request.clone().json()\<close> gives (the parsed body, or the error
  it throws).
\<close>

record request =
  url :: url
  acceptHeader :: "string list option"
  json :: "jserror + json"

text \<open>
  \<open>accepts(request)\<close> of the HTTP negotiation library, as \<open>acceptsJsonLd\<close> calls it
  (without offered types): \<open>accept ? preferredMediaTypes(accept) : ["*/*"]\<close>. Without an
  \<open>Accept\<close> header the result is the one type \<open>*/*\<close>; the result is never null.
\<close>

definition accepts :: "request \<Rightarrow> string list option" where
  "accepts request =
     (case acceptHeader request of
        None \<Rightarrow> Some [''*/*'']
      | Some types \<Rightarrow> Some types)"

section \<open>Content negotiation\<close>

text \<open>
  \<open>acceptsJsonLd\<close> (lines 30 to 39). \<open>types[0]\<close> of an empty array is undefined, which is
  neither of the two HTML types.
\<close>

definition acceptsJsonLd :: "request \<Rightarrow> bool" where
  "acceptsJsonLd request =
     (case accepts request of
        None \<Rightarrow> True
      | Some types \<Rightarrow>
          if (case types of [] \<Rightarrow> False
              | t # _ \<Rightarrow> t = ''text/html'' \<or> t = ''application/xhtml+xml'')
          then False
          else ''application/activity+json'' \<in> set types \<or>
               ''application/ld+json'' \<in> set types \<or>
               ''application/json'' \<in> set types)"

section \<open>Vocabulary entities, context and responses\<close>

text \<open>
  The vocabulary entities are opaque to the handlers; each is named by a string here.
  A URL that is an item or an identifier is kept as its \<open>href\<close> string.
\<close>

datatype actor = Actor string

datatype vobject = Object string

datatype link = Link string

datatype cryptographicKey = CryptographicKey string

text \<open>
  A collection item is an \<open>Object\<close>, a \<open>Link\<close>, a URL, or another recipient with an
  \<open>id\<close> that may be null. A projected item is one of the first three.
\<close>

datatype item = Item_Object vobject | Item_Link link | Item_URL string | Item_Recipient "string option"

datatype projected = Proj_Object vobject | Proj_Link link | Proj_URL string

record page =
  items :: "item list"
  prevCursor :: "string option"
  nextCursor :: "string option"

text \<open>
  JavaScript distinguishes an absent value (undefined) from null where \<open>Number\<close> is
  applied: \<open>Number(undefined)\<close> is NaN and \<open>Number(null)\<close> is 0. Counters give integers
  (a number or a bigint); \<open>Number\<close> keeps an integer of magnitude up to \<open>2 ^ 53\<close> as it
  is and rounds a larger one to the nearest double, which \<open>Rounded\<close> stands for.
  \<open>x == null\<close> holds of both undefined and null.
\<close>

datatype 'a nullable = Undefined | Null | Value 'a

fun isNullish :: "'a nullable \<Rightarrow> bool" where
  "isNullish Undefined = True"
| "isNullish Null = True"
| "isNullish (Value v) = False"

datatype jsnumber = Num int | Rounded int | NaN

fun Number :: "int nullable \<Rightarrow> jsnumber" where
  "Number Undefined = NaN"
| "Number Null = Num 0"
| "Number (Value n) = (if \<bar>n\<bar> \<le> 2 ^ 53 then Num n else Rounded n)"

text \<open>An absent \<open>items\<close> property and an empty one are the same list.\<close>

record orderedCollection =
  oc_totalItems :: "jsnumber option"
  oc_items :: "projected list"
  oc_first :: "url option"
  oc_last :: "url option"

record orderedCollectionPage =
  ocp_prev :: "url option"
  ocp_next :: "url option"
  ocp_items :: "projected list"
  ocp_partOf :: "url option"

datatype document =
    ActorDoc actor
  | ObjectDoc vobject
  | CollectionDoc orderedCollection
  | PageDoc orderedCollectionPage

text \<open>
  A response body is a plain text, or \<open>JSON.stringify(await x.toJsonLd(context))\<close> for an
  entity \<open>x\<close>; the serialisation belongs to the vocabulary and is kept symbolic.
\<close>

datatype body = Text string | JsonLd document

record response =
  status :: nat
  headers :: "(string \<times> string) list"
  body :: body

text \<open>
  The request context: its URL, the handle resolver, and the key that signed the request
  with the actor that owns it (each null for an unsigned request).
\<close>

record requestContext =
  context_url :: url
  getActor :: "string \<Rightarrow> actor option"
  getSignedKey :: "cryptographicKey option"
  getSignedKeyOwner :: "actor option"

section \<open>Activities, the listener classes and the key-value store\<close>

text \<open>
  An activity class is the root \<open>Activity\<close> or a named class with its parent class, so
  that \<open>Object.getPrototypeOf\<close> of a class other than the root is its second component
  and every chain of parents ends in \<open>Activity\<close>, as the type of the listener map's
  keys requires.
\<close>

datatype cls = Activity | Subclass string cls

record activity =
  constructor :: cls
  activity_id :: "string option"
  actorId :: "string option"

text \<open>
  Values the key-value store may hold, with JavaScript's truthiness; \<open>kv.get\<close> of a
  missing key is undefined. An entry keeps the time-to-live it was stored with.
\<close>

datatype jsvalue = JsUndefined | JsNull | JsBool bool | JsNumber int | JsString string

fun truthy :: "jsvalue \<Rightarrow> bool" where
  "truthy JsUndefined = False"
| "truthy JsNull = False"
| "truthy (JsBool b) = b"
| "truthy (JsNumber n) = (n \<noteq> 0)"
| "truthy (JsString s) = (s \<noteq> [])"

datatype duration = Days nat

type_synonym kvKey = "string list"

type_synonym kvStore = "kvKey \<rightharpoonup> jsvalue \<times> duration option"

definition kv_get :: "kvStore \<Rightarrow> kvKey \<Rightarrow> jsvalue" where
  "kv_get kv key = (case kv key of None \<Rightarrow> JsUndefined | Some e \<Rightarrow> fst e)"

definition kv_set :: "kvStore \<Rightarrow> kvKey \<Rightarrow> jsvalue \<Rightarrow> duration \<Rightarrow> kvStore" where
  "kv_set kv key v ttl = kv(key \<mapsto> (v, Some ttl))"

section \<open>Calls made by a handler\<close>

text \<open>
  A handler returns the calls it made to its callbacks and collaborators, in order and
  each with the value the call returned, together with what the handler produced.
  \<open>emit e k\<close> is the call \<open>e\<close> followed by the rest \<open>k\<close> of the handler; \<open>emits\<close> does
  the same for a list of calls (empty for an optional callback that is not configured).
\<close>

datatype event =
    Call_onNotFound
  | Call_onNotAcceptable
  | Call_onUnauthorized
  | Call_getActor string "actor option"
  | Call_objectDispatcher "vobject option"
  | Call_acceptsJsonLd bool
  | Call_getSignedKey
  | Call_getSignedKeyOwner
  | Call_authorizePredicate bool
  | Call_firstCursor "string option"
  | Call_counter "int option"
  | Call_lastCursor "string option"
  | Call_dispatcher "string option" "page option"
  | Call_json "jserror + json"
  | Call_inboxErrorHandler jserror
  | Call_verifyObject "jserror + activity option"
  | Call_verifyRequest "cryptographicKey option"
  | Call_fromJsonLd "jserror + activity"
  | Call_kvGet kvKey jsvalue
  | Call_doesActorOwnKey activity cryptographicKey bool
  | Call_listener cls activity "jserror option"
  | Call_kvSet kvKey jsvalue duration

definition respond :: "'a \<Rightarrow> event list \<times> 'a" where
  "respond r = ([], r)"

definition emit :: "event \<Rightarrow> event list \<times> 'a \<Rightarrow> event list \<times> 'a" where
  "emit e k = (e # fst k, snd k)"

definition emits :: "event list \<Rightarrow> event list \<times> 'a \<Rightarrow> event list \<times> 'a" where
  "emits es k = (es @ fst k, snd k)"

text \<open>The response of the success path (lines 75 to 80, 117 to 122, 270 to 275).\<close>

definition jsonLdResponse :: "document \<Rightarrow> response" where
  "jsonLdResponse d =
     \<lparr>status = 200,
      headers = [(''Content-Type'', ''application/activity+json''), (''Vary'', ''Accept'')],
      body = JsonLd d\<rparr>"

section \<open>Actor and object responders\<close>

type_synonym 'k authorize =
  "requestContext \<Rightarrow> 'k \<Rightarrow> cryptographicKey option \<Rightarrow> actor option \<Rightarrow> bool"

text \<open>
  Lines 67 to 73 (and 109 to 115, 255 to 268): the authorization predicate, when one
  is configured, decides between the unauthorized response and the rest of the handler.
\<close>

definition authorized ::
  "'k authorize option \<Rightarrow> requestContext \<Rightarrow> 'k \<Rightarrow> response \<Rightarrow> response \<Rightarrow>
   event list \<times> response" where
  "authorized authorizePredicate context k unauthorized success =
     (case authorizePredicate of
        None \<Rightarrow> respond success
      | Some authorize \<Rightarrow>
          emit Call_getSignedKey (emit Call_getSignedKeyOwner
            (emit (Call_authorizePredicate
                     (authorize context k (getSignedKey context) (getSignedKeyOwner context)))
               (if \<not> authorize context k (getSignedKey context) (getSignedKeyOwner context)
                then emit Call_onUnauthorized (respond unauthorized)
                else respond success))))"

text \<open>\<open>handleActor\<close> (lines 51 to 81).\<close>

definition handleActor ::
  "request \<Rightarrow> string \<Rightarrow> requestContext \<Rightarrow> (requestContext \<Rightarrow> string \<Rightarrow> actor option) option \<Rightarrow>
   string authorize option \<Rightarrow> (request \<Rightarrow> response) \<Rightarrow> (request \<Rightarrow> response) \<Rightarrow>
   (request \<Rightarrow> response) \<Rightarrow> event list \<times> response" where
  "handleActor request handle context actorDispatcher authorizePredicate
     onNotFound onNotAcceptable onUnauthorized =
     (if actorDispatcher = None then emit Call_onNotFound (respond (onNotFound request))
      else emit (Call_getActor handle (getActor context handle))
        (case getActor context handle of
           None \<Rightarrow> emit Call_onNotFound (respond (onNotFound request))
         | Some actor \<Rightarrow>
             emit (Call_acceptsJsonLd (acceptsJsonLd request))
               (if \<not> acceptsJsonLd request
                then emit Call_onNotAcceptable (respond (onNotAcceptable request))
                else authorized authorizePredicate context handle (onUnauthorized request)
                       (jsonLdResponse (ActorDoc actor)))))"

text \<open>\<open>handleObject\<close> (lines 93 to 123).\<close>

definition handleObject ::
  "request \<Rightarrow> (string \<times> string) list \<Rightarrow> requestContext \<Rightarrow>
   (requestContext \<Rightarrow> (string \<times> string) list \<Rightarrow> vobject option) option \<Rightarrow>
   (string \<times> string) list authorize option \<Rightarrow> (request \<Rightarrow> response) \<Rightarrow>
   (request \<Rightarrow> response) \<Rightarrow> (request \<Rightarrow> response) \<Rightarrow> event list \<times> response" where
  "handleObject request values context objectDispatcher authorizePredicate
     onNotFound onNotAcceptable onUnauthorized =
     (case objectDispatcher of
        None \<Rightarrow> emit Call_onNotFound (respond (onNotFound request))
      | Some dispatch \<Rightarrow>
          emit (Call_objectDispatcher (dispatch context values))
            (case dispatch context values of
               None \<Rightarrow> emit Call_onNotFound (respond (onNotFound request))
             | Some object \<Rightarrow>
                 emit (Call_acceptsJsonLd (acceptsJsonLd request))
                   (if \<not> acceptsJsonLd request
                    then emit Call_onNotAcceptable (respond (onNotAcceptable request))
                    else authorized authorizePredicate context values (onUnauthorized request)
                           (jsonLdResponse (ObjectDoc object)))))"

section \<open>Collection responder\<close>

text \<open>
  The projection of one raw item (lines 287 to 290): the item itself, the \<open>id\<close> of a
  recipient that has one, or nothing.
\<close>

fun mapItem :: "item \<Rightarrow> projected option" where
  "mapItem (Item_Object obj) = Some (Proj_Object obj)"
| "mapItem (Item_Link l) = Some (Proj_Link l)"
| "mapItem (Item_URL u) = Some (Proj_URL u)"
| "mapItem (Item_Recipient None) = None"
| "mapItem (Item_Recipient (Some i)) = Some (Proj_URL i)"

text \<open>
  The loop of \<open>filterCollectionItems\<close> (lines 285 to 303) with its two variables
  \<open>result\<close> and \<open>logged\<close>; the warning is written when \<open>logged\<close> turns true.
\<close>

fun filterCollectionItems_loop ::
  "item list \<Rightarrow> (item \<Rightarrow> bool) option \<Rightarrow> projected list \<Rightarrow> bool \<Rightarrow> projected list \<times> bool" where
  "filterCollectionItems_loop [] filterPredicate result logged = (result, logged)"
| "filterCollectionItems_loop (i # rest) filterPredicate result logged =
     (case mapItem i of
        None \<Rightarrow> filterCollectionItems_loop rest filterPredicate result logged
      | Some mappedItem \<Rightarrow>
          if (case filterPredicate of None \<Rightarrow> False | Some p \<Rightarrow> \<not> p i)
          then filterCollectionItems_loop rest filterPredicate result True
          else filterCollectionItems_loop rest filterPredicate (result @ [mappedItem]) logged)"

text \<open>
  \<open>filterCollectionItems\<close> (lines 278 to 305): the projected items, and whether the
  warning was written. The collection name only appears in the warning's text.
\<close>

definition filterCollectionItems ::
  "item list \<Rightarrow> string \<Rightarrow> (item \<Rightarrow> bool) option \<Rightarrow> projected list \<times> bool" where
  "filterCollectionItems its collectionName filterPredicate =
     filterCollectionItems_loop its filterPredicate [] False"

datatype tfilter = TFilter string

record collectionCallbacks =
  dispatcher :: "requestContext \<Rightarrow> string \<Rightarrow> string option \<Rightarrow> tfilter option \<Rightarrow> page option"
  counter :: "(requestContext \<Rightarrow> string \<Rightarrow> int option) option"
  firstCursor :: "(requestContext \<Rightarrow> string \<Rightarrow> string option) option"
  lastCursor :: "(requestContext \<Rightarrow> string \<Rightarrow> string option) option"
  authorizePredicate :: "string authorize option"

text \<open>
  \<open>new URL(u)\<close> followed by \<open>searchParams.set("cursor", v)\<close>, respectively by
  \<open>searchParams.delete("cursor")\<close>.
\<close>

definition withCursor :: "url \<Rightarrow> string \<Rightarrow> url" where
  "withCursor u v = u\<lparr>searchParams := searchParams_set ''cursor'' v (searchParams u)\<rparr>"

definition withoutCursor :: "url \<Rightarrow> url" where
  "withoutCursor u = u\<lparr>searchParams := searchParams_delete ''cursor'' (searchParams u)\<rparr>"

text \<open>
  An optional callback \<open>f?.(context, handle)\<close>: the call it makes when it is configured,
  and its value (undefined when it is not; null and undefined are both \<open>None\<close> where the
  handler only compares the value with null).
\<close>

definition optionalCall :: "('a \<Rightarrow> event) \<Rightarrow> 'a option \<Rightarrow> event list" where
  "optionalCall ev f = (case f of None \<Rightarrow> [] | Some r \<Rightarrow> [ev r])"

definition cursorValue ::
  "(requestContext \<Rightarrow> string \<Rightarrow> string option) option \<Rightarrow> requestContext \<Rightarrow> string \<Rightarrow> string option" where
  "cursorValue f context handle = (case f of None \<Rightarrow> None | Some g \<Rightarrow> g context handle)"

definition counterValue ::
  "(requestContext \<Rightarrow> string \<Rightarrow> int option) option \<Rightarrow> requestContext \<Rightarrow> string \<Rightarrow> int nullable" where
  "counterValue f context handle =
     (case f of
        None \<Rightarrow> Undefined
      | Some g \<Rightarrow> (case g context handle of None \<Rightarrow> Null | Some n \<Rightarrow> Value n))"

text \<open>
  Lines 254 to 275 of \<open>handleCollection\<close>, which the three branches that built a
  collection share: negotiation, authorization, and the response.
\<close>

definition respondCollection ::
  "request \<Rightarrow> string \<Rightarrow> requestContext \<Rightarrow> collectionCallbacks \<Rightarrow> (request \<Rightarrow> response) \<Rightarrow>
   (request \<Rightarrow> response) \<Rightarrow> document \<Rightarrow> event list \<times> response" where
  "respondCollection request handle context callbacks onUnauthorized onNotAcceptable collection =
     emit (Call_acceptsJsonLd (acceptsJsonLd request))
       (if \<not> acceptsJsonLd request
        then emit Call_onNotAcceptable (respond (onNotAcceptable request))
        else authorized (authorizePredicate callbacks) context handle (onUnauthorized request)
               (jsonLdResponse collection))"

text \<open>\<open>handleCollection\<close> (lines 167 to 276).\<close>

definition handleCollection ::
  "request \<Rightarrow> string \<Rightarrow> string \<Rightarrow> tfilter option \<Rightarrow> (item \<Rightarrow> bool) option \<Rightarrow> requestContext \<Rightarrow>
   collectionCallbacks option \<Rightarrow> (request \<Rightarrow> response) \<Rightarrow> (request \<Rightarrow> response) \<Rightarrow>
   (request \<Rightarrow> response) \<Rightarrow> event list \<times> response" where
  "handleCollection request name handle filter_v filterPredicate context collectionCallbacks
     onUnauthorized onNotFound onNotAcceptable =
     (case collectionCallbacks of
        None \<Rightarrow> emit Call_onNotFound (respond (onNotFound request))
      | Some callbacks \<Rightarrow>
          (case searchParams_get ''cursor'' (searchParams (url request)) of
             None \<Rightarrow>
               emits (optionalCall Call_firstCursor
                        (map_option (\<lambda>f. f context handle) (firstCursor callbacks)))
              (emits (optionalCall Call_counter
                        (map_option (\<lambda>f. f context handle) (counter callbacks)))
                (let totalItems = counterValue (counter callbacks) context handle
                 in case cursorValue (firstCursor callbacks) context handle of
                      None \<Rightarrow>
                        emit (Call_dispatcher None (dispatcher callbacks context handle None filter_v))
                          (case dispatcher callbacks context handle None filter_v of
                             None \<Rightarrow> emit Call_onNotFound (respond (onNotFound request))
                           | Some page \<Rightarrow>
                               respondCollection request handle context callbacks
                                 onUnauthorized onNotAcceptable
                                 (CollectionDoc
                                   \<lparr>oc_totalItems =
                                      (if isNullish totalItems then None
                                       else Some (Number totalItems)),
                                    oc_items =
                                      fst (filterCollectionItems (items page) name filterPredicate),
                                    oc_first = None,
                                    oc_last = None\<rparr>))
                    | Some firstCursor_v \<Rightarrow>
                        emits (optionalCall Call_lastCursor
                                 (map_option (\<lambda>f. f context handle) (lastCursor callbacks)))
                          (respondCollection request handle context callbacks
                             onUnauthorized onNotAcceptable
                             (CollectionDoc
                               \<lparr>oc_totalItems = Some (Number totalItems),
                                oc_items = [],
                                oc_first = Some (withCursor (context_url context) firstCursor_v),
                                oc_last =
                                  map_option (withCursor (context_url context))
                                    (cursorValue (lastCursor callbacks) context handle)\<rparr>))))
           | Some cursor \<Rightarrow>
               emit (Call_dispatcher (Some cursor)
                       (dispatcher callbacks context handle (Some cursor) filter_v))
                 (case dispatcher callbacks context handle (Some cursor) filter_v of
                    None \<Rightarrow> emit Call_onNotFound (respond (onNotFound request))
                  | Some page \<Rightarrow>
                      respondCollection request handle context callbacks
                        onUnauthorized onNotAcceptable
                        (PageDoc
                          \<lparr>ocp_prev = map_option (withCursor (context_url context)) (prevCursor page),
                           ocp_next = map_option (withCursor (context_url context)) (nextCursor page),
                           ocp_items =
                             fst (filterCollectionItems (items page) name filterPredicate),
                           ocp_partOf = Some (withoutCursor (context_url context))\<rparr>))))"

section \<open>Inbox pipeline\<close>

text \<open>
  The collaborators \<open>handleInbox\<close> imports: the proof verifier (a verified activity,
  null, or an error thrown), the verifier of the HTTP signature (the signing key or
  null), the plain deserialisation \<open>Activity.fromJsonLd\<close> (which may throw) and the
  ownership predicate.
\<close>

record signatures =
  verifyObject :: "json \<Rightarrow> requestContext \<Rightarrow> jserror + activity option"
  verifyRequest :: "request \<Rightarrow> requestContext \<Rightarrow> duration \<Rightarrow> cryptographicKey option"
  fromJsonLd :: "json \<Rightarrow> requestContext \<Rightarrow> jserror + activity"
  doesActorOwnKey :: "activity \<Rightarrow> cryptographicKey \<Rightarrow> requestContext \<Rightarrow> bool"

text \<open>
  A listener returns, or throws the error given. The listener map is keyed by class.
\<close>

type_synonym inboxListener = "requestContext \<Rightarrow> activity \<Rightarrow> jserror option"

text \<open>Every response the pipeline builds itself is a plain text.\<close>

definition textResponse :: "nat \<Rightarrow> string \<Rightarrow> response" where
  "textResponse code text =
     \<lparr>status = code,
      headers = [(''Content-Type'', ''text/plain; charset=utf-8'')],
      body = Text text\<rparr>"

text \<open>
  The loop of lines 434 to 447: the first class with a registered listener, from the
  given class up its parents; nothing when \<open>Activity\<close> is reached without one.
\<close>

fun resolveListenerClass :: "(cls \<rightharpoonup> inboxListener) \<Rightarrow> cls \<Rightarrow> cls option" where
  "resolveListenerClass inboxListeners Activity =
     (if inboxListeners Activity \<noteq> None then Some Activity else None)"
| "resolveListenerClass inboxListeners (Subclass n parent) =
     (if inboxListeners (Subclass n parent) \<noteq> None then Some (Subclass n parent)
      else resolveListenerClass inboxListeners parent)"

type_synonym inboxResult = "event list \<times> kvStore \<times> (jserror + response)"

text \<open>
  Lines 405 to 473 of \<open>handleInbox\<close>: actor presence, the ownership check for a key of
  the HTTP signature, listener resolution, dispatch and commit. Calling the value of
  \<open>inboxListeners.get(cls)\<close> when it is undefined throws inside the \<open>try\<close> block.
\<close>

definition dispatchActivity ::
  "signatures \<Rightarrow> requestContext \<Rightarrow> kvStore \<Rightarrow> (cls \<rightharpoonup> inboxListener) \<Rightarrow>
   (requestContext \<Rightarrow> jserror \<Rightarrow> unit) option \<Rightarrow> activity \<Rightarrow> cryptographicKey option \<Rightarrow>
   kvKey option \<Rightarrow> inboxResult" where
  "dispatchActivity sigs context kv inboxListeners inboxErrorHandler activity httpSigKey cacheKey =
     (if actorId activity = None then respond (kv, Inr (textResponse 400 ''Missing actor.''))
      else
        emits (optionalCall (\<lambda>key. Call_doesActorOwnKey activity key
                               (doesActorOwnKey sigs activity key context)) httpSigKey)
          (if (case httpSigKey of None \<Rightarrow> False
               | Some key \<Rightarrow> \<not> doesActorOwnKey sigs activity key context)
           then respond (kv, Inr (textResponse 401 ''The signer and the actor do not match.''))
           else
             (case resolveListenerClass inboxListeners (constructor activity) of
                None \<Rightarrow> respond (kv, Inr (textResponse 202 []))
              | Some c \<Rightarrow>
                  (let outcome =
                     (case inboxListeners c of
                        None \<Rightarrow> Some (JsError ''TypeError'')
                      | Some listener \<Rightarrow> listener context activity)
                   in emit (Call_listener c activity outcome)
                        (case outcome of
                           Some error \<Rightarrow>
                             emits (optionalCall (\<lambda>h. Call_inboxErrorHandler error)
                                      inboxErrorHandler)
                               (respond (kv, Inr (textResponse 500 ''Internal server error.'')))
                         | None \<Rightarrow>
                             (case cacheKey of
                                None \<Rightarrow> respond (kv, Inr (textResponse 202 []))
                              | Some key \<Rightarrow>
                                  emit (Call_kvSet key (JsBool True) (Days 1))
                                    (respond (kv_set kv key (JsBool True) (Days 1),
                                              Inr (textResponse 202 [])))))))))"

text \<open>
  Lines 386 to 404 of \<open>handleInbox\<close>, where the two verification paths meet: the
  idempotency key and the query of the store.
\<close>

definition processActivity ::
  "signatures \<Rightarrow> requestContext \<Rightarrow> kvStore \<Rightarrow> kvKey \<Rightarrow> (cls \<rightharpoonup> inboxListener) \<Rightarrow>
   (requestContext \<Rightarrow> jserror \<Rightarrow> unit) option \<Rightarrow> activity \<Rightarrow> cryptographicKey option \<Rightarrow>
   inboxResult" where
  "processActivity sigs context kv kvPrefix inboxListeners inboxErrorHandler activity httpSigKey =
     (case activity_id activity of
        None \<Rightarrow>
          dispatchActivity sigs context kv inboxListeners inboxErrorHandler activity httpSigKey None
      | Some i \<Rightarrow>
          (let cacheKey = kvPrefix @ [i]
           in emit (Call_kvGet cacheKey (kv_get kv cacheKey))
                (if kv_get kv cacheKey = JsBool True
                 then respond (kv, Inr (textResponse 202
                                 (''Activity <'' @ i @ ''> has already been processed.'')))
                 else dispatchActivity sigs context kv inboxListeners inboxErrorHandler
                        activity httpSigKey (Some cacheKey))))"

text \<open>
  \<open>handleInbox\<close> (lines 322 to 473). An error thrown by \<open>Activity.fromJsonLd\<close> is not
  caught and is the outcome of the handler.
\<close>

definition handleInbox ::
  "signatures \<Rightarrow> request \<Rightarrow> string option \<Rightarrow> requestContext \<Rightarrow> kvStore \<Rightarrow> kvKey \<Rightarrow>
   (requestContext \<Rightarrow> string \<Rightarrow> actor option) option \<Rightarrow> (cls \<rightharpoonup> inboxListener) \<Rightarrow>
   (requestContext \<Rightarrow> jserror \<Rightarrow> unit) option \<Rightarrow> (request \<Rightarrow> response) \<Rightarrow> duration \<Rightarrow>
   inboxResult" where
  "handleInbox sigs request handle context kv kvPrefix actorDispatcher inboxListeners
     inboxErrorHandler onNotFound signatureTimeWindow =
     (if actorDispatcher = None then emit Call_onNotFound (respond (kv, Inr (onNotFound request)))
      else
        emits (optionalCall (\<lambda>h. Call_getActor h (getActor context h)) handle)
          (if (case handle of None \<Rightarrow> False | Some h \<Rightarrow> getActor context h = None)
           then emit Call_onNotFound (respond (kv, Inr (onNotFound request)))
           else
             emit (Call_json (json request))
               (case json request of
                  Inl error \<Rightarrow>
                    emits (optionalCall (\<lambda>h. Call_inboxErrorHandler error) inboxErrorHandler)
                      (respond (kv, Inr (textResponse 400 ''Invalid JSON.'')))
                | Inr doc \<Rightarrow>
                    emit (Call_verifyObject (verifyObject sigs doc context))
                      (case verifyObject sigs doc context of
                         Inl error \<Rightarrow>
                           emits (optionalCall (\<lambda>h. Call_inboxErrorHandler error)
                                    inboxErrorHandler)
                             (respond (kv, Inr (textResponse 400 ''Invalid activity.'')))
                       | Inr (Some activity) \<Rightarrow>
                           processActivity sigs context kv kvPrefix inboxListeners
                             inboxErrorHandler activity None
                       | Inr None \<Rightarrow>
                           emit (Call_verifyRequest
                                   (verifyRequest sigs request context signatureTimeWindow))
                             (case verifyRequest sigs request context signatureTimeWindow of
                                None \<Rightarrow>
                                  respond (kv, Inr (textResponse 401
                                             ''Failed to verify the request signature.''))
                              | Some key \<Rightarrow>
                                  emit (Call_fromJsonLd (fromJsonLd sigs doc context))
                                    (case fromJsonLd sigs doc context of
                                       Inl error \<Rightarrow> respond (kv, Inl error)
                                     | Inr activity \<Rightarrow>
                                         processActivity sigs context kv kvPrefix inboxListeners
                                           inboxErrorHandler activity (Some key)))))))"

section \<open>Object response helpers\<close>

text \<open>
  \<open>Headers.set\<close>: the header takes the value given, whether it was present or not.
\<close>

definition headers_set :: "string \<Rightarrow> string \<Rightarrow> (string \<times> string) list \<Rightarrow> (string \<times> string) list" where
  "headers_set n v hs = filter (\<lambda>h. fst h \<noteq> n) hs @ [(n, v)]"

text \<open>
  \<open>respondWithObject\<close> (lines 495 to 505) and \<open>respondWithObjectIfAcceptable\<close> (lines 516
  to 525). The options only reach the serialisation.
\<close>

definition respondWithObject :: "vobject \<Rightarrow> response" where
  "respondWithObject object =
     \<lparr>status = 200,
      headers = [(''Content-Type'', ''application/activity+json'')],
      body = JsonLd (ObjectDoc object)\<rparr>"

definition respondWithObjectIfAcceptable :: "vobject \<Rightarrow> request \<Rightarrow> response option" where
  "respondWithObjectIfAcceptable object request =
     (if \<not> acceptsJsonLd request then None
      else Some ((respondWithObject object)
                   \<lparr>headers := headers_set ''Vary'' ''Accept'' (headers (respondWithObject object))\<rparr>))"

section \<open>Notions used to state the properties\<close>

text \<open>The value of the \<open>Content-Type\<close> header of a response.\<close>

definition contentType :: "response \<Rightarrow> string option" where
  "contentType r = map_of (headers r) ''Content-Type''"

text \<open>
  The class chain of an activity class: the class itself, then its parents up to the
  root \<open>Activity\<close>.
\<close>

fun classChain :: "cls \<Rightarrow> cls list" where
  "classChain Activity = [Activity]"
| "classChain (Subclass n parent) = Subclass n parent # classChain parent"

text \<open>The query parameters of a URL other than \<open>cursor\<close>.\<close>

definition otherParams :: "url \<Rightarrow> (string \<times> string) list" where
  "otherParams u = filter (\<lambda>p. fst p \<noteq> ''cursor'') (searchParams u)"

text \<open>
  What it means for a URL to be another one with the \<open>cursor\<close> parameter removed: same
  origin, path and fragment, and the other parameters unchanged and in order. And with
  the \<open>cursor\<close> parameter replaced by a value: same origin, path and fragment; the
  parameters in front of the first \<open>cursor\<close> parameter unchanged, then the one \<open>cursor\<close>
  parameter with the value at the place of the first one (at the end when there was
  none), then the remaining parameters other than \<open>cursor\<close>, in order.
\<close>

definition cursorRemoved :: "url \<Rightarrow> url \<Rightarrow> bool" where
  "cursorRemoved base u \<longleftrightarrow>
     origin_path u = origin_path base \<and> hash u = hash base \<and>
     searchParams u = otherParams base"

definition cursorReplaced :: "url \<Rightarrow> string \<Rightarrow> url \<Rightarrow> bool" where
  "cursorReplaced base c u \<longleftrightarrow>
     origin_path u = origin_path base \<and> hash u = hash base \<and>
     searchParams u =
       takeWhile (\<lambda>p. fst p \<noteq> ''cursor'') (searchParams base)
       @ (''cursor'', c)
       # filter (\<lambda>p. fst p \<noteq> ''cursor'')
           (dropWhile (\<lambda>p. fst p \<noteq> ''cursor'') (searchParams base))"

section \<open>Example requests\<close>

definition ex_url :: url where
  "ex_url = \<lparr>origin_path = ''https://h/x'', searchParams = [(''a'', ''1'')], hash = []\<rparr>"

definition ex_page_url :: url where
  "ex_page_url =
     \<lparr>origin_path = ''https://h/x'', searchParams = [(''a'', ''1''), (''cursor'', ''p5'')], hash = []\<rparr>"

text \<open>
  Requests with the header \<open>Accept: application/activity+json\<close>, with HTML preferred,
  with \<open>application/ld+json\<close> preferred to HTML, without an \<open>Accept\<close> header, and with
  an \<open>Accept\<close> header that names no media type.
\<close>

definition ex_request :: request where
  "ex_request =
     \<lparr>url = ex_url, acceptHeader = Some [''application/activity+json''],
      json = Inr (JsonDoc ''{}'')\<rparr>"

definition ex_html_request :: request where
  "ex_html_request =
     \<lparr>url = ex_url, acceptHeader = Some [''text/html'', ''application/json''],
      json = Inr (JsonDoc ''{}'')\<rparr>"

definition ex_ld_request :: request where
  "ex_ld_request =
     \<lparr>url = ex_url, acceptHeader = Some [''application/ld+json'', ''text/html''],
      json = Inr (JsonDoc ''{}'')\<rparr>"

definition ex_bare_request :: request where
  "ex_bare_request = \<lparr>url = ex_url, acceptHeader = None, json = Inr (JsonDoc ''{}'')\<rparr>"

definition ex_unparsed_request :: request where
  "ex_unparsed_request = \<lparr>url = ex_url, acceptHeader = Some [], json = Inr (JsonDoc ''{}'')\<rparr>"

definition ex_page_request :: request where
  "ex_page_request =
     \<lparr>url = ex_page_url, acceptHeader = Some [''application/activity+json''],
      json = Inr (JsonDoc ''{}'')\<rparr>"

definition ex_context :: requestContext where
  "ex_context =
     \<lparr>context_url = ex_url,
      getActor = (\<lambda>h. if h = ''alice'' then Some (Actor ''alice'') else None),
      getSignedKey = None,
      getSignedKeyOwner = None\<rparr>"

definition ex_page_context :: requestContext where
  "ex_page_context = ex_context\<lparr>context_url := ex_page_url\<rparr>"

text \<open>A context whose URL is the public one of a server that is reached at another.\<close>

definition ex_public_url :: url where
  "ex_public_url =
     \<lparr>origin_path = ''https://public.example/x'',
      searchParams = [(''cursor'', ''p5''), (''a'', ''1''), (''cursor'', ''old'')], hash = []\<rparr>"

definition ex_public_context :: requestContext where
  "ex_public_context = ex_context\<lparr>context_url := ex_public_url\<rparr>"

definition ex_actorDispatcher :: "requestContext \<Rightarrow> string \<Rightarrow> actor option" where
  "ex_actorDispatcher c h = getActor c h"

definition ex_objectDispatcher :: "requestContext \<Rightarrow> (string \<times> string) list \<Rightarrow> vobject option" where
  "ex_objectDispatcher c vs = (if vs = [(''id'', ''1'')] then Some (Object ''note-1'') else None)"

definition ex_onNotFound :: "request \<Rightarrow> response" where
  "ex_onNotFound r = \<lparr>status = 404, headers = [], body = Text ''Not Found''\<rparr>"

definition ex_onNotAcceptable :: "request \<Rightarrow> response" where
  "ex_onNotAcceptable r = \<lparr>status = 406, headers = [], body = Text ''Not Acceptable''\<rparr>"

definition ex_onUnauthorized :: "request \<Rightarrow> response" where
  "ex_onUnauthorized r = \<lparr>status = 401, headers = [], body = Text ''Unauthorized''\<rparr>"

definition ex_deny :: "'k authorize" where
  "ex_deny c k signer owner = False"

definition ex_page :: page where
  "ex_page = \<lparr>items = [Item_URL ''u1''], prevCursor = Some ''p4'', nextCursor = None\<rparr>"

text \<open>
  A collection with cursors and no counter, one whose dispatcher knows no page, and one
  with an authorization predicate that lets every request pass.
\<close>

definition ex_callbacks :: collectionCallbacks where
  "ex_callbacks =
     \<lparr>dispatcher = (\<lambda>c h cur f. if cur = Some ''p5'' then Some ex_page else None),
      counter = None,
      firstCursor = Some (\<lambda>c h. Some ''c0''),
      lastCursor = Some (\<lambda>c h. Some ''c9''),
      authorizePredicate = None\<rparr>"

definition ex_null_counter_callbacks :: collectionCallbacks where
  "ex_null_counter_callbacks = ex_callbacks\<lparr>counter := Some (\<lambda>c h. None)\<rparr>"

definition ex_empty_callbacks :: collectionCallbacks where
  "ex_empty_callbacks =
     \<lparr>dispatcher = (\<lambda>c h cur f. None),
      counter = None,
      firstCursor = None,
      lastCursor = None,
      authorizePredicate = None\<rparr>"

definition ex_guarded_callbacks :: collectionCallbacks where
  "ex_guarded_callbacks = ex_callbacks\<lparr>authorizePredicate := Some (\<lambda>c h k owner. True)\<rparr>"

definition ex_locked_callbacks :: collectionCallbacks where
  "ex_locked_callbacks = ex_callbacks\<lparr>authorizePredicate := Some ex_deny\<rparr>"

text \<open>
  A delivery of an \<open>Announce\<close> activity signed with an HTTP signature whose key the actor
  owns, to a server where only \<open>Activity\<close> has a listener.
\<close>

definition ex_activity :: activity where
  "ex_activity =
     \<lparr>constructor = Subclass ''Announce'' Activity,
      activity_id = Some ''https://e/a/1'',
      actorId = Some ''https://e/@bob''\<rparr>"

definition ex_key :: cryptographicKey where
  "ex_key = CryptographicKey ''https://e/@bob#main-key''"

definition ex_sigs :: signatures where
  "ex_sigs =
     \<lparr>verifyObject = (\<lambda>d c. Inr None),
      verifyRequest = (\<lambda>r c w. Some ex_key),
      fromJsonLd = (\<lambda>d c. Inr ex_activity),
      doesActorOwnKey = (\<lambda>a k c. True)\<rparr>"

definition ex_stranger_sigs :: signatures where
  "ex_stranger_sigs = ex_sigs\<lparr>doesActorOwnKey := (\<lambda>a k c. False)\<rparr>"

definition ex_proof_sigs :: signatures where
  "ex_proof_sigs = ex_sigs\<lparr>verifyObject := (\<lambda>d c. Inr (Some ex_activity))\<rparr>"

definition ex_listeners :: "cls \<rightharpoonup> inboxListener" where
  "ex_listeners = [Activity \<mapsto> (\<lambda>c a. None)]"

definition ex_kvPrefix :: kvKey where
  "ex_kvPrefix = [''_fedify'', ''activityIdempotence'']"

definition ex_cacheKey :: kvKey where
  "ex_cacheKey = [''_fedify'', ''activityIdempotence'', ''https://e/a/1'']"

definition ex_kv_processed :: kvStore where
  "ex_kv_processed = [ex_cacheKey \<mapsto> (JsBool True, Some (Days 1))]"

definition ex_kv_truthy :: kvStore where
  "ex_kv_truthy = [ex_cacheKey \<mapsto> (JsNumber 1, None)]"

text \<open>
  The delivery above to the inbox of \<open>alice\<close>, with the collaborators and the store
  left open, and a request for the \<open>followers\<close> collection of \<open>alice\<close>.
\<close>

definition ex_delivery :: "signatures \<Rightarrow> kvStore \<Rightarrow> (cls \<rightharpoonup> inboxListener) \<Rightarrow> inboxResult" where
  "ex_delivery sigs kv listeners =
     handleInbox sigs ex_request (Some ''alice'') ex_context kv ex_kvPrefix
       (Some ex_actorDispatcher) listeners None ex_onNotFound (Days 1)"

definition ex_collection ::
  "request \<Rightarrow> requestContext \<Rightarrow> collectionCallbacks \<Rightarrow> event list \<times> response" where
  "ex_collection request c callbacks =
     handleCollection request ''followers'' ''alice'' None None c (Some callbacks)
       ex_onUnauthorized ex_onNotFound ex_onNotAcceptable"

section \<open>Content negotiation: properties\<close>

text \<open>
  What \<open>acceptsJsonLd\<close> computes: a request is accepted exactly when the first of its
  accepted types is neither \<open>text/html\<close> nor \<open>application/xhtml+xml\<close> and one of
  \<open>application/activity+json\<close>, \<open>application/ld+json\<close> and \<open>application/json\<close> is among
  them. The test \<open>types == null\<close> of line 32 never holds.
\<close>

lemma accepts_never_null: "accepts request \<noteq> None"
  by (simp add: accepts_def split: option.split)

lemma acceptsJsonLd_negotiated:
  "acceptsJsonLd request \<longleftrightarrow>
     (\<exists>types. accepts request = Some types \<and>
        \<not> (\<exists>t ts. types = t # ts \<and> (t = ''text/html'' \<or> t = ''application/xhtml+xml'')) \<and>
        (''application/activity+json'' \<in> set types \<or>
         ''application/ld+json'' \<in> set types \<or>
         ''application/json'' \<in> set types))"
  by (auto simp: acceptsJsonLd_def accepts_def split: option.splits list.splits)

text \<open>
  C5. The code at the claim's failing input: for a request without an \<open>Accept\<close> header
  the accepted types are the one type \<open>*/*\<close>, and for a request whose \<open>Accept\<close> header
  names no media type they are none; \<open>acceptsJsonLd\<close> is false of both, where the claim
  says true of a request with no parseable \<open>Accept\<close> header.
\<close>

theorem acceptsJsonLd_without_Accept:
  "acceptHeader ex_bare_request = None \<and>
   accepts ex_bare_request = Some [''*/*''] \<and>
   \<not> acceptsJsonLd ex_bare_request \<and>
   acceptHeader ex_unparsed_request = Some [] \<and>
   accepts ex_unparsed_request = Some [] \<and>
   \<not> acceptsJsonLd ex_unparsed_request"
  by (simp add: acceptsJsonLd_def accepts_def ex_bare_request_def ex_unparsed_request_def)

section \<open>Facts used in the proofs\<close>

lemmas inbox_defs = handleInbox_def processActivity_def dispatchActivity_def emit_def emits_def
  respond_def optionalCall_def Let_def

lemmas responder_defs = handleActor_def handleObject_def handleCollection_def
  respondCollection_def authorized_def emit_def emits_def respond_def optionalCall_def Let_def

lemmas ex_defs = ex_delivery_def ex_collection_def ex_request_def ex_html_request_def
  ex_ld_request_def ex_bare_request_def ex_unparsed_request_def ex_page_request_def
  ex_context_def ex_page_context_def ex_public_context_def ex_public_url_def ex_url_def
  ex_page_url_def ex_sigs_def ex_listeners_def ex_kvPrefix_def ex_cacheKey_def
  ex_kv_processed_def ex_kv_truthy_def ex_activity_def ex_key_def ex_actorDispatcher_def
  ex_objectDispatcher_def ex_onNotFound_def ex_onNotAcceptable_def ex_onUnauthorized_def
  ex_stranger_sigs_def ex_proof_sigs_def ex_deny_def ex_page_def ex_callbacks_def
  ex_null_counter_callbacks_def ex_empty_callbacks_def ex_guarded_callbacks_def
  ex_locked_callbacks_def

lemma resolveListenerClass_find:
  "resolveListenerClass m c = find (\<lambda>k. m k \<noteq> None) (classChain c)"
  by (induction c) simp_all

lemma resolveListenerClass_registered:
  "resolveListenerClass m c = Some k \<Longrightarrow> \<exists>l. m k = Some l"
  by (induction c) (auto split: if_splits)

section \<open>Responders: properties\<close>



section \<open>Inbox pipeline: properties\<close>

text \<open>
  C1, as amended. For a delivery whose activity (verified by its proof, or deserialised
  after the HTTP signature was verified) has an id, when the store holds exactly the
  value true at the prefix followed by the id, the response is 202 with the body
  "Activity <id> has already been processed.", no listener is called and the store is
  unchanged.
\<close>

theorem processed_delivery_short_circuits:
  fixes sigs request handle ctx kv kvPrefix actorDispatcher inboxListeners
    inboxErrorHandler onNotFound signatureTimeWindow
  defines "r \<equiv> handleInbox sigs request handle ctx kv kvPrefix actorDispatcher
                  inboxListeners inboxErrorHandler onNotFound signatureTimeWindow"
  assumes "actorDispatcher \<noteq> None"
      and "\<forall>h. handle = Some h \<longrightarrow> getActor ctx h \<noteq> None"
      and "json request = Inr doc"
      and "verifyObject sigs doc ctx = Inr (Some activity) \<or>
           (verifyObject sigs doc ctx = Inr None \<and>
            verifyRequest sigs request ctx signatureTimeWindow \<noteq> None \<and>
            fromJsonLd sigs doc ctx = Inr activity)"
      and "activity_id activity = Some i"
      and "kv_get kv (kvPrefix @ [i]) = JsBool True"
  shows "snd (snd r) =
           Inr (textResponse 202 (''Activity <'' @ i @ ''> has already been processed.'')) \<and>
         (\<forall>c a e. Call_listener c a e \<notin> set (fst r)) \<and>
         fst (snd r) = kv"
  using assms(2-) unfolding r_def
  by (auto simp: inbox_defs split: option.splits)

theorem processed_delivery_short_circuits_witness:
  "kv_get ex_kv_processed (ex_kvPrefix @ [''https://e/a/1'']) = JsBool True \<and>
   fst (ex_delivery ex_sigs ex_kv_processed ex_listeners) =
     [Call_getActor ''alice'' (Some (Actor ''alice'')), Call_json (Inr (JsonDoc ''{}'')),
      Call_verifyObject (Inr None), Call_verifyRequest (Some ex_key),
      Call_fromJsonLd (Inr ex_activity), Call_kvGet ex_cacheKey (JsBool True)] \<and>
   snd (snd (ex_delivery ex_sigs ex_kv_processed ex_listeners)) =
     Inr (textResponse 202 ''Activity <https://e/a/1> has already been processed.'')"
  using processed_delivery_short_circuits [where sigs = ex_sigs and request = ex_request
      and handle = "Some ''alice''" and ctx = ex_context and kv = ex_kv_processed
      and kvPrefix = ex_kvPrefix and actorDispatcher = "Some ex_actorDispatcher"
      and inboxListeners = ex_listeners and inboxErrorHandler = None
      and onNotFound = ex_onNotFound and signatureTimeWindow = "Days 1"
      and doc = "JsonDoc ''{}''" and activity = ex_activity and i = "''https://e/a/1''"]
  by (simp add: ex_defs inbox_defs kv_get_def)

text \<open>
  C1 as stated speaks of a truthy value. The store holding the number 1 at the key is
  truthy and not the value true: the listener is called and the body is empty.
\<close>

theorem truthy_store_value_counterexample:
  "activity_id ex_activity = Some ''https://e/a/1'' \<and>
   truthy (kv_get ex_kv_truthy (ex_kvPrefix @ [''https://e/a/1''])) \<and>
   snd (snd (ex_delivery ex_sigs ex_kv_truthy ex_listeners)) = Inr (textResponse 202 []) \<and>
   Call_listener Activity ex_activity None
     \<in> set (fst (ex_delivery ex_sigs ex_kv_truthy ex_listeners))"
  by (simp add: ex_defs inbox_defs kv_get_def)

text \<open>
  C2. In the calls of one request, a listener call comes after a successful verification
  (of the proof, or of the HTTP signature) and after the query of the store for the
  activity's id, when it has one; no verification and no query comes after it, and no
  commit comes before it. A commit stores true for one day at the prefix followed by the
  id of an activity whose listener returned without throwing, and is followed by the
  response 202 with an empty body; and a listener that returned for an activity with an
  id is followed by the commit.
\<close>

theorem inbox_ordering:
  fixes sigs request handle ctx kv kvPrefix actorDispatcher inboxListeners
    inboxErrorHandler onNotFound signatureTimeWindow
  defines "r \<equiv> handleInbox sigs request handle ctx kv kvPrefix actorDispatcher
                  inboxListeners inboxErrorHandler onNotFound signatureTimeWindow"
  shows
  "(\<forall>pre c a e post. fst r = pre @ Call_listener c a e # post \<longrightarrow>
      (Call_verifyObject (Inr (Some a)) \<in> set pre \<or>
       (\<exists>key. Call_verifyRequest (Some key) \<in> set pre)) \<and>
      (\<forall>i. activity_id a = Some i \<longrightarrow> (\<exists>v. Call_kvGet (kvPrefix @ [i]) v \<in> set pre)) \<and>
      (\<forall>k v t. Call_kvSet k v t \<notin> set pre) \<and>
      (\<forall>v. Call_verifyObject v \<notin> set post) \<and>
      (\<forall>v. Call_verifyRequest v \<notin> set post) \<and>
      (\<forall>k v. Call_kvGet k v \<notin> set post)) \<and>
   (\<forall>key v ttl. Call_kvSet key v ttl \<in> set (fst r) \<longrightarrow>
      v = JsBool True \<and> ttl = Days 1 \<and>
      (\<exists>c a i. Call_listener c a None \<in> set (fst r) \<and> activity_id a = Some i \<and>
         key = kvPrefix @ [i]) \<and>
      snd (snd r) = Inr (textResponse 202 []) \<and>
      fst (snd r) = kv_set kv key (JsBool True) (Days 1)) \<and>
   (\<forall>c a i. Call_listener c a None \<in> set (fst r) \<and> activity_id a = Some i \<longrightarrow>
      Call_kvSet (kvPrefix @ [i]) (JsBool True) (Days 1) \<in> set (fst r))"
proof (intro conjI)
  show "\<forall>pre c a e post. fst r = pre @ Call_listener c a e # post \<longrightarrow>
      (Call_verifyObject (Inr (Some a)) \<in> set pre \<or>
       (\<exists>key. Call_verifyRequest (Some key) \<in> set pre)) \<and>
      (\<forall>i. activity_id a = Some i \<longrightarrow> (\<exists>v. Call_kvGet (kvPrefix @ [i]) v \<in> set pre)) \<and>
      (\<forall>k v t. Call_kvSet k v t \<notin> set pre) \<and>
      (\<forall>v. Call_verifyObject v \<notin> set post) \<and>
      (\<forall>v. Call_verifyRequest v \<notin> set post) \<and>
      (\<forall>k v. Call_kvGet k v \<notin> set post)"
    unfolding r_def
    by (simp add: inbox_defs Cons_eq_append_conv split: option.split sum.split)
  show "\<forall>key v ttl. Call_kvSet key v ttl \<in> set (fst r) \<longrightarrow>
      v = JsBool True \<and> ttl = Days 1 \<and>
      (\<exists>c a i. Call_listener c a None \<in> set (fst r) \<and> activity_id a = Some i \<and>
         key = kvPrefix @ [i]) \<and>
      snd (snd r) = Inr (textResponse 202 []) \<and>
      fst (snd r) = kv_set kv key (JsBool True) (Days 1)"
    unfolding r_def
    by (simp add: inbox_defs split: option.split sum.split)
  show "\<forall>c a i. Call_listener c a None \<in> set (fst r) \<and> activity_id a = Some i \<longrightarrow>
      Call_kvSet (kvPrefix @ [i]) (JsBool True) (Days 1) \<in> set (fst r)"
    unfolding r_def
    by (simp add: inbox_defs split: option.split sum.split)
qed

theorem inbox_ordering_witness:
  "fst (ex_delivery ex_sigs Map.empty ex_listeners) =
     [Call_getActor ''alice'' (Some (Actor ''alice'')), Call_json (Inr (JsonDoc ''{}'')),
      Call_verifyObject (Inr None), Call_verifyRequest (Some ex_key),
      Call_fromJsonLd (Inr ex_activity), Call_kvGet ex_cacheKey JsUndefined,
      Call_doesActorOwnKey ex_activity ex_key True]
     @ Call_listener Activity ex_activity None
     # [Call_kvSet ex_cacheKey (JsBool True) (Days 1)] \<and>
   (Call_verifyObject (Inr (Some ex_activity))
      \<in> set [Call_getActor ''alice'' (Some (Actor ''alice'')), Call_json (Inr (JsonDoc ''{}'')),
             Call_verifyObject (Inr None), Call_verifyRequest (Some ex_key),
             Call_fromJsonLd (Inr ex_activity), Call_kvGet ex_cacheKey JsUndefined,
             Call_doesActorOwnKey ex_activity ex_key True] \<or>
    (\<exists>key. Call_verifyRequest (Some key)
      \<in> set [Call_getActor ''alice'' (Some (Actor ''alice'')), Call_json (Inr (JsonDoc ''{}'')),
             Call_verifyObject (Inr None), Call_verifyRequest (Some ex_key),
             Call_fromJsonLd (Inr ex_activity), Call_kvGet ex_cacheKey JsUndefined,
             Call_doesActorOwnKey ex_activity ex_key True])) \<and>
   snd (snd (ex_delivery ex_sigs Map.empty ex_listeners)) = Inr (textResponse 202 []) \<and>
   fst (snd (ex_delivery ex_sigs Map.empty ex_listeners)) =
     kv_set Map.empty ex_cacheKey (JsBool True) (Days 1)"
proof -
  have trace: "fst (handleInbox ex_sigs ex_request (Some ''alice'') ex_context Map.empty
        ex_kvPrefix (Some ex_actorDispatcher) ex_listeners None ex_onNotFound (Days 1)) =
     [Call_getActor ''alice'' (Some (Actor ''alice'')), Call_json (Inr (JsonDoc ''{}'')),
      Call_verifyObject (Inr None), Call_verifyRequest (Some ex_key),
      Call_fromJsonLd (Inr ex_activity), Call_kvGet ex_cacheKey JsUndefined,
      Call_doesActorOwnKey ex_activity ex_key True]
     @ Call_listener Activity ex_activity None
     # [Call_kvSet ex_cacheKey (JsBool True) (Days 1)]"
    by (simp add: ex_defs inbox_defs kv_get_def)
  have committed: "Call_kvSet ex_cacheKey (JsBool True) (Days 1)
      \<in> set (fst (handleInbox ex_sigs ex_request (Some ''alice'') ex_context Map.empty
        ex_kvPrefix (Some ex_actorDispatcher) ex_listeners None ex_onNotFound (Days 1)))"
    unfolding trace by simp
  note before = inbox_ordering [where kvPrefix = ex_kvPrefix, THEN conjunct1, rule_format,
      OF trace, THEN conjunct1]
  note commit = inbox_ordering [where kvPrefix = ex_kvPrefix, THEN conjunct2, THEN conjunct1,
      rule_format, OF committed]
  from trace before commit show ?thesis
    unfolding ex_delivery_def by blast
qed

text \<open>
  C3. A listener call is preceded, in the same request, by the successful verification
  of the activity's proof, or by a successful verification of the HTTP signature and an
  ownership check of that key for the activity that returned true. When the ownership
  check returns false (it is made for the key of the HTTP signature, once the request
  has passed the idempotency check and has an actor), the response is 401 with the body
  "The signer and the actor do not match." and no listener is called. A request whose
  activity was verified by its proof makes no ownership check.
\<close>

theorem listener_requires_verification:
  fixes sigs request handle ctx kv kvPrefix actorDispatcher inboxListeners
    inboxErrorHandler onNotFound signatureTimeWindow
  defines "r \<equiv> handleInbox sigs request handle ctx kv kvPrefix actorDispatcher
                  inboxListeners inboxErrorHandler onNotFound signatureTimeWindow"
  shows
  "(\<forall>pre c a e post. fst r = pre @ Call_listener c a e # post \<longrightarrow>
      Call_verifyObject (Inr (Some a)) \<in> set pre \<or>
      (\<exists>key. Call_verifyRequest (Some key) \<in> set pre \<and>
             Call_doesActorOwnKey a key True \<in> set pre)) \<and>
   (\<forall>a key. Call_doesActorOwnKey a key False \<in> set (fst r) \<longrightarrow>
      Call_verifyRequest (Some key) \<in> set (fst r) \<and>
      snd (snd r) = Inr (textResponse 401 ''The signer and the actor do not match.'') \<and>
      (\<forall>c a' e. Call_listener c a' e \<notin> set (fst r))) \<and>
   (\<forall>doc a key. actorDispatcher \<noteq> None \<and> (\<forall>h. handle = Some h \<longrightarrow> getActor ctx h \<noteq> None) \<and>
      json request = Inr doc \<and> verifyObject sigs doc ctx = Inr None \<and>
      verifyRequest sigs request ctx signatureTimeWindow = Some key \<and>
      fromJsonLd sigs doc ctx = Inr a \<and>
      (\<forall>i. activity_id a = Some i \<longrightarrow> kv_get kv (kvPrefix @ [i]) \<noteq> JsBool True) \<and>
      actorId a \<noteq> None \<and> \<not> doesActorOwnKey sigs a key ctx \<longrightarrow>
      Call_doesActorOwnKey a key False \<in> set (fst r)) \<and>
   (\<forall>a. Call_verifyObject (Inr (Some a)) \<in> set (fst r) \<longrightarrow>
      (\<forall>a' key b. Call_doesActorOwnKey a' key b \<notin> set (fst r)))"
proof (intro conjI)
  show "\<forall>pre c a e post. fst r = pre @ Call_listener c a e # post \<longrightarrow>
      Call_verifyObject (Inr (Some a)) \<in> set pre \<or>
      (\<exists>key. Call_verifyRequest (Some key) \<in> set pre \<and>
             Call_doesActorOwnKey a key True \<in> set pre)"
    unfolding r_def
    by (simp add: inbox_defs Cons_eq_append_conv split: option.split sum.split)
  show "\<forall>a key. Call_doesActorOwnKey a key False \<in> set (fst r) \<longrightarrow>
      Call_verifyRequest (Some key) \<in> set (fst r) \<and>
      snd (snd r) = Inr (textResponse 401 ''The signer and the actor do not match.'') \<and>
      (\<forall>c a' e. Call_listener c a' e \<notin> set (fst r))"
    unfolding r_def
    by (simp add: inbox_defs split: option.split sum.split)
  show "\<forall>doc a key. actorDispatcher \<noteq> None \<and> (\<forall>h. handle = Some h \<longrightarrow> getActor ctx h \<noteq> None) \<and>
      json request = Inr doc \<and> verifyObject sigs doc ctx = Inr None \<and>
      verifyRequest sigs request ctx signatureTimeWindow = Some key \<and>
      fromJsonLd sigs doc ctx = Inr a \<and>
      (\<forall>i. activity_id a = Some i \<longrightarrow> kv_get kv (kvPrefix @ [i]) \<noteq> JsBool True) \<and>
      actorId a \<noteq> None \<and> \<not> doesActorOwnKey sigs a key ctx \<longrightarrow>
      Call_doesActorOwnKey a key False \<in> set (fst r)"
    unfolding r_def
    by (auto simp: inbox_defs split: option.splits)
  show "\<forall>a. Call_verifyObject (Inr (Some a)) \<in> set (fst r) \<longrightarrow>
      (\<forall>a' key b. Call_doesActorOwnKey a' key b \<notin> set (fst r))"
    unfolding r_def
    by (simp add: inbox_defs split: option.split sum.split)
qed

theorem listener_requires_verification_witness:
  "fst (ex_delivery ex_stranger_sigs Map.empty ex_listeners) =
     [Call_getActor ''alice'' (Some (Actor ''alice'')), Call_json (Inr (JsonDoc ''{}'')),
      Call_verifyObject (Inr None), Call_verifyRequest (Some ex_key),
      Call_fromJsonLd (Inr ex_activity), Call_kvGet ex_cacheKey JsUndefined,
      Call_doesActorOwnKey ex_activity ex_key False] \<and>
   snd (snd (ex_delivery ex_stranger_sigs Map.empty ex_listeners)) =
     Inr (textResponse 401 ''The signer and the actor do not match.'') \<and>
   fst (ex_delivery ex_proof_sigs Map.empty ex_listeners) =
     [Call_getActor ''alice'' (Some (Actor ''alice'')), Call_json (Inr (JsonDoc ''{}'')),
      Call_verifyObject (Inr (Some ex_activity)), Call_kvGet ex_cacheKey JsUndefined]
     @ Call_listener Activity ex_activity None
     # [Call_kvSet ex_cacheKey (JsBool True) (Days 1)] \<and>
   (\<forall>a key b. Call_doesActorOwnKey a key b
      \<notin> set (fst (ex_delivery ex_proof_sigs Map.empty ex_listeners)))"
proof -
  have stranger: "fst (handleInbox ex_stranger_sigs ex_request (Some ''alice'') ex_context
        Map.empty ex_kvPrefix (Some ex_actorDispatcher) ex_listeners None ex_onNotFound
        (Days 1)) =
     [Call_getActor ''alice'' (Some (Actor ''alice'')), Call_json (Inr (JsonDoc ''{}'')),
      Call_verifyObject (Inr None), Call_verifyRequest (Some ex_key),
      Call_fromJsonLd (Inr ex_activity), Call_kvGet ex_cacheKey JsUndefined,
      Call_doesActorOwnKey ex_activity ex_key False]"
    by (simp add: ex_defs inbox_defs kv_get_def)
  have checked: "Call_doesActorOwnKey ex_activity ex_key False
      \<in> set (fst (handleInbox ex_stranger_sigs ex_request (Some ''alice'') ex_context
        Map.empty ex_kvPrefix (Some ex_actorDispatcher) ex_listeners None ex_onNotFound
        (Days 1)))"
    unfolding stranger by simp
  have proved: "fst (handleInbox ex_proof_sigs ex_request (Some ''alice'') ex_context
        Map.empty ex_kvPrefix (Some ex_actorDispatcher) ex_listeners None ex_onNotFound
        (Days 1)) =
     [Call_getActor ''alice'' (Some (Actor ''alice'')), Call_json (Inr (JsonDoc ''{}'')),
      Call_verifyObject (Inr (Some ex_activity)), Call_kvGet ex_cacheKey JsUndefined]
     @ Call_listener Activity ex_activity None
     # [Call_kvSet ex_cacheKey (JsBool True) (Days 1)]"
    by (simp add: ex_defs inbox_defs kv_get_def)
  have verified: "Call_verifyObject (Inr (Some ex_activity))
      \<in> set (fst (handleInbox ex_proof_sigs ex_request (Some ''alice'') ex_context
        Map.empty ex_kvPrefix (Some ex_actorDispatcher) ex_listeners None ex_onNotFound
        (Days 1)))"
    unfolding proved by simp
  note mismatch = listener_requires_verification [where kvPrefix = ex_kvPrefix,
      THEN conjunct2, THEN conjunct1, rule_format, OF checked]
  note skipped = listener_requires_verification [where kvPrefix = ex_kvPrefix,
      THEN conjunct2, THEN conjunct2, THEN conjunct2, rule_format, OF verified]
  from stranger proved mismatch skipped show ?thesis
    unfolding ex_delivery_def by blast
qed

text \<open>
  C9. For a delivery that reaches listener resolution, the listener called is the one
  registered for the first class of the activity's class chain (the activity's own
  class first, \<open>Activity\<close> last) that has a listener, and it is called with the
  activity; when no class of the chain has a listener, the response is 202 with an
  empty body, no listener is called and the store is unchanged.
\<close>

theorem listener_resolution:
  fixes sigs request handle ctx kv kvPrefix actorDispatcher inboxListeners
    inboxErrorHandler onNotFound signatureTimeWindow
  defines "r \<equiv> handleInbox sigs request handle ctx kv kvPrefix actorDispatcher
                  inboxListeners inboxErrorHandler onNotFound signatureTimeWindow"
  assumes "actorDispatcher \<noteq> None"
      and "\<forall>h. handle = Some h \<longrightarrow> getActor ctx h \<noteq> None"
      and "json request = Inr doc"
      and "verifyObject sigs doc ctx = Inr (Some activity) \<or>
           (verifyObject sigs doc ctx = Inr None \<and>
            (\<exists>key. verifyRequest sigs request ctx signatureTimeWindow = Some key \<and>
                   doesActorOwnKey sigs activity key ctx) \<and>
            fromJsonLd sigs doc ctx = Inr activity)"
      and "\<forall>i. activity_id activity = Some i \<longrightarrow> kv_get kv (kvPrefix @ [i]) \<noteq> JsBool True"
      and "actorId activity \<noteq> None"
  shows "(find (\<lambda>c. inboxListeners c \<noteq> None) (classChain (constructor activity)) = None \<longrightarrow>
            snd (snd r) = Inr (textResponse 202 []) \<and>
            (\<forall>c a e. Call_listener c a e \<notin> set (fst r)) \<and> fst (snd r) = kv) \<and>
         (\<forall>c. find (\<lambda>c. inboxListeners c \<noteq> None) (classChain (constructor activity)) = Some c \<longrightarrow>
            (\<exists>listener. inboxListeners c = Some listener \<and>
               Call_listener c activity (listener ctx activity) \<in> set (fst r)) \<and>
            (\<forall>c' a e. Call_listener c' a e \<in> set (fst r) \<longrightarrow> c' = c \<and> a = activity))"
proof -
  let ?found = "resolveListenerClass inboxListeners (constructor activity)"
  have none: "?found = None \<Longrightarrow>
      snd (snd r) = Inr (textResponse 202 []) \<and>
      (\<forall>c a e. Call_listener c a e \<notin> set (fst r)) \<and> fst (snd r) = kv"
    using assms(2-) unfolding r_def
    by (auto simp: inbox_defs split: option.splits)
  have some: "\<And>c listener. ?found = Some c \<Longrightarrow> inboxListeners c = Some listener \<Longrightarrow>
      Call_listener c activity (listener ctx activity) \<in> set (fst r) \<and>
      (\<forall>c' a e. Call_listener c' a e \<in> set (fst r) \<longrightarrow> c' = c \<and> a = activity)"
    using assms(2-) unfolding r_def
    by (auto simp: inbox_defs split: option.splits)
  show ?thesis
    using none some resolveListenerClass_registered [of inboxListeners "constructor activity"]
    unfolding resolveListenerClass_find [symmetric]
    by blast
qed

theorem listener_resolution_witness:
  "find (\<lambda>c. ex_listeners c \<noteq> None) (classChain (constructor ex_activity)) = Some Activity \<and>
   (\<exists>listener. ex_listeners Activity = Some listener \<and>
      Call_listener Activity ex_activity (listener ex_context ex_activity)
        \<in> set (fst (ex_delivery ex_proof_sigs Map.empty ex_listeners))) \<and>
   find (\<lambda>c. (Map.empty :: cls \<rightharpoonup> inboxListener) c \<noteq> None)
     (classChain (constructor ex_activity)) = None \<and>
   snd (snd (ex_delivery ex_proof_sigs Map.empty Map.empty)) = Inr (textResponse 202 []) \<and>
   (\<forall>c a e. Call_listener c a e \<notin> set (fst (ex_delivery ex_proof_sigs Map.empty Map.empty)))"
proof -
  have h1: "Some ex_actorDispatcher \<noteq> None" by simp
  have h2: "\<forall>h. Some ''alice'' = Some h \<longrightarrow> getActor ex_context h \<noteq> None"
    by (simp add: ex_context_def)
  have h3: "json ex_request = Inr (JsonDoc ''{}'')" by (simp add: ex_request_def)
  have h4: "verifyObject ex_proof_sigs (JsonDoc ''{}'') ex_context = Inr (Some ex_activity) \<or>
      (verifyObject ex_proof_sigs (JsonDoc ''{}'') ex_context = Inr None \<and>
       (\<exists>key. verifyRequest ex_proof_sigs ex_request ex_context (Days 1) = Some key \<and>
              doesActorOwnKey ex_proof_sigs ex_activity key ex_context) \<and>
       fromJsonLd ex_proof_sigs (JsonDoc ''{}'') ex_context = Inr ex_activity)"
    by (simp add: ex_proof_sigs_def ex_sigs_def)
  have h5: "\<forall>i. activity_id ex_activity = Some i \<longrightarrow>
      kv_get Map.empty (ex_kvPrefix @ [i]) \<noteq> JsBool True"
    by (simp add: kv_get_def)
  have h6: "actorId ex_activity \<noteq> None" by (simp add: ex_activity_def)
  have found: "find (\<lambda>c. ex_listeners c \<noteq> None) (classChain (constructor ex_activity)) =
      Some Activity"
    by (simp add: ex_activity_def ex_listeners_def)
  have missing: "find (\<lambda>c. (Map.empty :: cls \<rightharpoonup> inboxListener) c \<noteq> None)
      (classChain (constructor ex_activity)) = None"
    by (simp add: ex_activity_def)
  note hit = listener_resolution [where inboxListeners = ex_listeners
      and inboxErrorHandler = None and onNotFound = ex_onNotFound,
      OF h1 h2 h3 h4 h5 h6, THEN conjunct2, rule_format, OF found, THEN conjunct1]
  note miss = listener_resolution [where inboxListeners = Map.empty
      and inboxErrorHandler = None and onNotFound = ex_onNotFound,
      OF h1 h2 h3 h4 h5 h6, THEN conjunct1, rule_format, OF missing]
  from found missing hit miss show ?thesis
    unfolding ex_delivery_def by blast
qed

section \<open>Responses and collections: properties\<close>

text \<open>
  C6, as amended. A response that the actor, object or collection responder builds
  itself (none of the three fallback callbacks was called) has status 200 and the
  \<open>Content-Type\<close> \<open>application/activity+json\<close>, as have the responses of
  \<open>respondWithObject\<close> and \<open>respondWithObjectIfAcceptable\<close>; a response that the inbox
  pipeline builds itself, its 202 responses included, has the \<open>Content-Type\<close>
  \<open>text/plain; charset=utf-8\<close>.
\<close>

theorem success_content_types:
  fixes request handle ctx actorDispatcher authorizeActor onNotFound onNotAcceptable
    onUnauthorized vals objectDispatcher authorizeObject name filter_v filterPredicate
    collectionCallbacks sigs inboxHandle kv kvPrefix inboxListeners inboxErrorHandler
    signatureTimeWindow
  defines "ra \<equiv> handleActor request handle ctx actorDispatcher authorizeActor
                   onNotFound onNotAcceptable onUnauthorized"
      and "ro \<equiv> handleObject request vals ctx objectDispatcher authorizeObject
                   onNotFound onNotAcceptable onUnauthorized"
      and "rc \<equiv> handleCollection request name handle filter_v filterPredicate ctx
                   collectionCallbacks onUnauthorized onNotFound onNotAcceptable"
      and "ri \<equiv> handleInbox sigs request inboxHandle ctx kv kvPrefix actorDispatcher
                   inboxListeners inboxErrorHandler onNotFound signatureTimeWindow"
  shows
  "(Call_onNotFound \<notin> set (fst ra) \<and> Call_onNotAcceptable \<notin> set (fst ra) \<and>
    Call_onUnauthorized \<notin> set (fst ra) \<longrightarrow>
      status (snd ra) = 200 \<and> contentType (snd ra) = Some ''application/activity+json'') \<and>
   (Call_onNotFound \<notin> set (fst ro) \<and> Call_onNotAcceptable \<notin> set (fst ro) \<and>
    Call_onUnauthorized \<notin> set (fst ro) \<longrightarrow>
      status (snd ro) = 200 \<and> contentType (snd ro) = Some ''application/activity+json'') \<and>
   (Call_onNotFound \<notin> set (fst rc) \<and> Call_onNotAcceptable \<notin> set (fst rc) \<and>
    Call_onUnauthorized \<notin> set (fst rc) \<longrightarrow>
      status (snd rc) = 200 \<and> contentType (snd rc) = Some ''application/activity+json'') \<and>
   (status (respondWithObject object) = 200 \<and>
    contentType (respondWithObject object) = Some ''application/activity+json'') \<and>
   (\<forall>resp. respondWithObjectIfAcceptable object request = Some resp \<longrightarrow>
      status resp = 200 \<and> contentType resp = Some ''application/activity+json'') \<and>
   (\<forall>resp. snd (snd ri) = Inr resp \<and> Call_onNotFound \<notin> set (fst ri) \<longrightarrow>
      contentType resp = Some ''text/plain; charset=utf-8'')"
proof (intro conjI)
  show "Call_onNotFound \<notin> set (fst ra) \<and> Call_onNotAcceptable \<notin> set (fst ra) \<and>
    Call_onUnauthorized \<notin> set (fst ra) \<longrightarrow>
      status (snd ra) = 200 \<and> contentType (snd ra) = Some ''application/activity+json''"
    unfolding ra_def
    by (simp add: responder_defs jsonLdResponse_def contentType_def split: option.split)
  show "Call_onNotFound \<notin> set (fst ro) \<and> Call_onNotAcceptable \<notin> set (fst ro) \<and>
    Call_onUnauthorized \<notin> set (fst ro) \<longrightarrow>
      status (snd ro) = 200 \<and> contentType (snd ro) = Some ''application/activity+json''"
    unfolding ro_def
    by (simp add: responder_defs jsonLdResponse_def contentType_def split: option.split)
  show "Call_onNotFound \<notin> set (fst rc) \<and> Call_onNotAcceptable \<notin> set (fst rc) \<and>
    Call_onUnauthorized \<notin> set (fst rc) \<longrightarrow>
      status (snd rc) = 200 \<and> contentType (snd rc) = Some ''application/activity+json''"
    unfolding rc_def
    by (simp add: responder_defs jsonLdResponse_def contentType_def split: option.split)
  show "status (respondWithObject object) = 200"
    by (simp add: respondWithObject_def)
  show "contentType (respondWithObject object) = Some ''application/activity+json''"
    by (simp add: respondWithObject_def contentType_def)
  show "\<forall>resp. respondWithObjectIfAcceptable object request = Some resp \<longrightarrow>
      status resp = 200 \<and> contentType resp = Some ''application/activity+json''"
    by (auto simp: respondWithObjectIfAcceptable_def respondWithObject_def contentType_def
        headers_set_def split: if_splits)
  show "\<forall>resp. snd (snd ri) = Inr resp \<and> Call_onNotFound \<notin> set (fst ri) \<longrightarrow>
      contentType resp = Some ''text/plain; charset=utf-8''"
    unfolding ri_def
    by (simp add: inbox_defs textResponse_def contentType_def split: option.split sum.split)
qed

theorem success_content_types_witness:
  "Call_onNotFound \<notin> set (fst (handleActor ex_request ''alice'' ex_context
      (Some ex_actorDispatcher) None ex_onNotFound ex_onNotAcceptable ex_onUnauthorized)) \<and>
   Call_onNotAcceptable \<notin> set (fst (handleActor ex_request ''alice'' ex_context
      (Some ex_actorDispatcher) None ex_onNotFound ex_onNotAcceptable ex_onUnauthorized)) \<and>
   Call_onUnauthorized \<notin> set (fst (handleActor ex_request ''alice'' ex_context
      (Some ex_actorDispatcher) None ex_onNotFound ex_onNotAcceptable ex_onUnauthorized)) \<and>
   status (snd (handleActor ex_request ''alice'' ex_context
      (Some ex_actorDispatcher) None ex_onNotFound ex_onNotAcceptable ex_onUnauthorized)) = 200 \<and>
   contentType (snd (handleActor ex_request ''alice'' ex_context
      (Some ex_actorDispatcher) None ex_onNotFound ex_onNotAcceptable ex_onUnauthorized)) =
     Some ''application/activity+json'' \<and>
   snd (snd (ex_delivery ex_sigs Map.empty ex_listeners)) = Inr (textResponse 202 []) \<and>
   Call_onNotFound \<notin> set (fst (ex_delivery ex_sigs Map.empty ex_listeners)) \<and>
   contentType (textResponse 202 []) = Some ''text/plain; charset=utf-8''"
proof -
  have quiet: "Call_onNotFound \<notin> set (fst (handleActor ex_request ''alice'' ex_context
      (Some ex_actorDispatcher) None ex_onNotFound ex_onNotAcceptable ex_onUnauthorized)) \<and>
   Call_onNotAcceptable \<notin> set (fst (handleActor ex_request ''alice'' ex_context
      (Some ex_actorDispatcher) None ex_onNotFound ex_onNotAcceptable ex_onUnauthorized)) \<and>
   Call_onUnauthorized \<notin> set (fst (handleActor ex_request ''alice'' ex_context
      (Some ex_actorDispatcher) None ex_onNotFound ex_onNotAcceptable ex_onUnauthorized))"
    by (simp add: ex_defs responder_defs acceptsJsonLd_def accepts_def)
  have delivered: "snd (snd (handleInbox ex_sigs ex_request (Some ''alice'') ex_context
      Map.empty ex_kvPrefix (Some ex_actorDispatcher) ex_listeners None ex_onNotFound
      (Days 1))) = Inr (textResponse 202 []) \<and>
    Call_onNotFound \<notin> set (fst (handleInbox ex_sigs ex_request (Some ''alice'') ex_context
      Map.empty ex_kvPrefix (Some ex_actorDispatcher) ex_listeners None ex_onNotFound
      (Days 1)))"
    by (simp add: ex_defs inbox_defs kv_get_def)
  note inst = success_content_types [where request = ex_request and handle = "''alice''"
      and ctx = ex_context and actorDispatcher = "Some ex_actorDispatcher"
      and authorizeActor = None and onNotFound = ex_onNotFound
      and onNotAcceptable = ex_onNotAcceptable and onUnauthorized = ex_onUnauthorized
      and sigs = ex_sigs and inboxHandle = "Some ''alice''" and kv = Map.empty
      and kvPrefix = ex_kvPrefix and inboxListeners = ex_listeners
      and inboxErrorHandler = None and signatureTimeWindow = "Days 1"]
  note actor = inst [THEN conjunct1, THEN mp, OF quiet]
  note inbox = inst [THEN conjunct2, THEN conjunct2, THEN conjunct2, THEN conjunct2,
      THEN conjunct2, THEN spec, THEN mp, OF delivered]
  from quiet delivered actor inbox show ?thesis
    unfolding ex_delivery_def by blast
qed

text \<open>
  C6 as stated includes the 202 responses of the inbox pipeline: the response to a
  delivery that was processed has status 202 and a plain-text \<open>Content-Type\<close>.
\<close>

theorem inbox_success_content_type_counterexample:
  "snd (snd (ex_delivery ex_sigs Map.empty ex_listeners)) = Inr (textResponse 202 []) \<and>
   status (textResponse 202 []) = 202 \<and>
   contentType (textResponse 202 []) = Some ''text/plain; charset=utf-8'' \<and>
   contentType (textResponse 202 []) \<noteq> Some ''application/activity+json''"
  by (simp add: ex_defs inbox_defs kv_get_def textResponse_def contentType_def)

subsection \<open>Query parameters\<close>

lemma searchParams_delete_filter:
  "searchParams_delete n ps = filter (\<lambda>p. fst p \<noteq> n) ps"
  by (induction ps) auto

lemma searchParams_set_closed_form:
  "searchParams_set n v ps =
     takeWhile (\<lambda>p. fst p \<noteq> n) ps
     @ (n, v) # filter (\<lambda>p. fst p \<noteq> n) (dropWhile (\<lambda>p. fst p \<noteq> n) ps)"
  by (induction ps) (auto simp: searchParams_delete_filter)

lemma withoutCursor_removed: "cursorRemoved u (withoutCursor u)"
  by (simp add: cursorRemoved_def withoutCursor_def otherParams_def searchParams_delete_filter)

lemma withCursor_replaced: "cursorReplaced u c (withCursor u c)"
  by (simp add: cursorReplaced_def withCursor_def searchParams_set_closed_form)

text \<open>
  C7, as amended. For a page request (a \<open>cursor\<close> parameter in the request URL, a
  dispatcher that returns a page) that passes negotiation and authorization, the
  response carries an \<open>OrderedCollectionPage\<close> whose \<open>partOf\<close> is the URL of the context
  with the \<open>cursor\<close> parameter removed, and whose \<open>prev\<close> (and \<open>next\<close>) is absent exactly
  when the page's \<open>prevCursor\<close> (\<open>nextCursor\<close>) is null and otherwise is the URL of the
  context with the \<open>cursor\<close> parameter replaced by that cursor.
\<close>

theorem collection_page_links:
  fixes request name handle filter_v filterPredicate ctx collectionCallbacks
    onUnauthorized onNotFound onNotAcceptable
  defines "r \<equiv> handleCollection request name handle filter_v filterPredicate ctx
                  collectionCallbacks onUnauthorized onNotFound onNotAcceptable"
  assumes "collectionCallbacks = Some callbacks"
      and "searchParams_get ''cursor'' (searchParams (url request)) = Some cursor"
      and "dispatcher callbacks ctx handle (Some cursor) filter_v = Some page"
      and "acceptsJsonLd request"
      and "\<forall>p. authorizePredicate callbacks = Some p \<longrightarrow>
             p ctx handle (getSignedKey ctx) (getSignedKeyOwner ctx)"
  shows "\<exists>doc. snd r = jsonLdResponse (PageDoc doc) \<and>
           (\<exists>u. ocp_partOf doc = Some u \<and> cursorRemoved (context_url ctx) u) \<and>
           (prevCursor page = None \<longleftrightarrow> ocp_prev doc = None) \<and>
           (\<forall>c. prevCursor page = Some c \<longrightarrow>
              (\<exists>u. ocp_prev doc = Some u \<and> cursorReplaced (context_url ctx) c u)) \<and>
           (nextCursor page = None \<longleftrightarrow> ocp_next doc = None) \<and>
           (\<forall>c. nextCursor page = Some c \<longrightarrow>
              (\<exists>u. ocp_next doc = Some u \<and> cursorReplaced (context_url ctx) c u))"
  using assms(2-) unfolding r_def
  by (auto simp: responder_defs withoutCursor_removed withCursor_replaced split: option.splits)

theorem collection_page_links_witness:
  "searchParams_get ''cursor'' (searchParams (url ex_page_request)) = Some ''p5'' \<and>
   acceptsJsonLd ex_page_request \<and>
   snd (ex_collection ex_page_request ex_page_context ex_callbacks) =
     jsonLdResponse (PageDoc
       \<lparr>ocp_prev = Some \<lparr>origin_path = ''https://h/x'',
                          searchParams = [(''a'', ''1''), (''cursor'', ''p4'')], hash = []\<rparr>,
        ocp_next = None,
        ocp_items = [Proj_URL ''u1''],
        ocp_partOf = Some \<lparr>origin_path = ''https://h/x'',
                            searchParams = [(''a'', ''1'')], hash = []\<rparr>\<rparr>) \<and>
   cursorReplaced (context_url ex_page_context) ''p4''
     \<lparr>origin_path = ''https://h/x'', searchParams = [(''a'', ''1''), (''cursor'', ''p4'')],
      hash = []\<rparr> \<and>
   cursorRemoved (context_url ex_page_context)
     \<lparr>origin_path = ''https://h/x'', searchParams = [(''a'', ''1'')], hash = []\<rparr>"
proof -
  have h2: "Some ex_callbacks = Some ex_callbacks" by simp
  have h3: "searchParams_get ''cursor'' (searchParams (url ex_page_request)) = Some ''p5''"
    by (simp add: ex_page_request_def ex_page_url_def)
  have h4: "dispatcher ex_callbacks ex_page_context ''alice'' (Some ''p5'') None = Some ex_page"
    by (simp add: ex_callbacks_def)
  have h5: "acceptsJsonLd ex_page_request"
    by (simp add: acceptsJsonLd_def accepts_def ex_page_request_def)
  have h6: "\<forall>p. authorizePredicate ex_callbacks = Some p \<longrightarrow>
      p ex_page_context ''alice'' (getSignedKey ex_page_context)
        (getSignedKeyOwner ex_page_context)"
    by (simp add: ex_callbacks_def)
  have response: "snd (handleCollection ex_page_request ''followers'' ''alice'' None None
        ex_page_context (Some ex_callbacks) ex_onUnauthorized ex_onNotFound
        ex_onNotAcceptable) =
     jsonLdResponse (PageDoc
       \<lparr>ocp_prev = Some \<lparr>origin_path = ''https://h/x'',
                          searchParams = [(''a'', ''1''), (''cursor'', ''p4'')], hash = []\<rparr>,
        ocp_next = None,
        ocp_items = [Proj_URL ''u1''],
        ocp_partOf = Some \<lparr>origin_path = ''https://h/x'',
                            searchParams = [(''a'', ''1'')], hash = []\<rparr>\<rparr>)"
    by (simp add: ex_defs responder_defs acceptsJsonLd_def accepts_def withCursor_def
        withoutCursor_def filterCollectionItems_def)
  note links = collection_page_links [where name = "''followers''" and filterPredicate = None
      and onUnauthorized = ex_onUnauthorized and onNotFound = ex_onNotFound
      and onNotAcceptable = ex_onNotAcceptable, OF h2 h3 h4 h5 h6]
  have prev: "prevCursor ex_page = Some ''p4''" by (simp add: ex_page_def)
  from links response prev
  have "cursorReplaced (context_url ex_page_context) ''p4''
     \<lparr>origin_path = ''https://h/x'', searchParams = [(''a'', ''1''), (''cursor'', ''p4'')],
      hash = []\<rparr> \<and>
   cursorRemoved (context_url ex_page_context)
     \<lparr>origin_path = ''https://h/x'', searchParams = [(''a'', ''1'')], hash = []\<rparr>"
    by (auto simp: jsonLdResponse_def)
  with h3 h5 response show ?thesis unfolding ex_collection_def by blast
qed

text \<open>
  C7 as stated takes the links from the request URL. The handler reads the cursor from
  the request URL and builds the links from the URL of the context: for a context with
  another URL, \<open>partOf\<close> and \<open>prev\<close> are not the request URL with the \<open>cursor\<close> parameter
  removed or replaced.
\<close>

theorem page_links_context_url_counterexample:
  "searchParams_get ''cursor'' (searchParams (url ex_page_request)) = Some ''p5'' \<and>
   acceptsJsonLd ex_page_request \<and>
   snd (ex_collection ex_page_request ex_public_context ex_callbacks) =
     jsonLdResponse (PageDoc
       \<lparr>ocp_prev = Some \<lparr>origin_path = ''https://public.example/x'',
                          searchParams = [(''cursor'', ''p4''), (''a'', ''1'')], hash = []\<rparr>,
        ocp_next = None,
        ocp_items = [Proj_URL ''u1''],
        ocp_partOf = Some \<lparr>origin_path = ''https://public.example/x'',
                            searchParams = [(''a'', ''1'')], hash = []\<rparr>\<rparr>) \<and>
   \<not> cursorRemoved (url ex_page_request)
       \<lparr>origin_path = ''https://public.example/x'', searchParams = [(''a'', ''1'')],
        hash = []\<rparr> \<and>
   \<not> cursorReplaced (url ex_page_request) ''p4''
       \<lparr>origin_path = ''https://public.example/x'',
        searchParams = [(''cursor'', ''p4''), (''a'', ''1'')], hash = []\<rparr>"
  by (simp add: ex_defs responder_defs acceptsJsonLd_def accepts_def withCursor_def
      withoutCursor_def filterCollectionItems_def cursorRemoved_def cursorReplaced_def)

text \<open>
  C8. The code at the claim's failing input: a summary request, acceptable to JSON-LD, to
  a collection with a first cursor and a counter that returns null gets \<open>totalItems\<close> 0,
  which is \<open>Number(null)\<close>, where the claim asks for null; and without a counter the
  collection is built with \<open>Number(undefined)\<close>, that is NaN (a number that the JSON
  serialisation writes as null). No items are embedded, and \<open>first\<close> and \<open>last\<close> are the
  URL with the cursor set.
\<close>

theorem summary_totalItems_without_counter:
  "acceptsJsonLd ex_request \<and>
   snd (ex_collection ex_request ex_context ex_null_counter_callbacks) =
     jsonLdResponse (CollectionDoc
       \<lparr>oc_totalItems = Some (Num 0),
        oc_items = [],
        oc_first = Some \<lparr>origin_path = ''https://h/x'',
                           searchParams = [(''a'', ''1''), (''cursor'', ''c0'')], hash = []\<rparr>,
        oc_last = Some \<lparr>origin_path = ''https://h/x'',
                          searchParams = [(''a'', ''1''), (''cursor'', ''c9'')], hash = []\<rparr>\<rparr>) \<and>
   snd (ex_collection ex_request ex_context ex_callbacks) =
     jsonLdResponse (CollectionDoc
       \<lparr>oc_totalItems = Some NaN,
        oc_items = [],
        oc_first = Some \<lparr>origin_path = ''https://h/x'',
                           searchParams = [(''a'', ''1''), (''cursor'', ''c0'')], hash = []\<rparr>,
        oc_last = Some \<lparr>origin_path = ''https://h/x'',
                          searchParams = [(''a'', ''1''), (''cursor'', ''c9'')], hash = []\<rparr>\<rparr>)"
  by (simp add: ex_defs responder_defs acceptsJsonLd_def accepts_def withCursor_def
      cursorValue_def counterValue_def)

text \<open>
  C10, as amended. A request with a \<open>cursor\<close> parameter calls none of the counter, the
  first-cursor and the last-cursor callbacks, whether configured or not; of the
  collection callbacks it calls the dispatcher, once, first and with that cursor, and
  the authorization predicate when one is configured and the request is acceptable.
\<close>

theorem page_request_callbacks:
  fixes request name handle filter_v filterPredicate ctx collectionCallbacks
    onUnauthorized onNotFound onNotAcceptable
  defines "r \<equiv> handleCollection request name handle filter_v filterPredicate ctx
                  collectionCallbacks onUnauthorized onNotFound onNotAcceptable"
  assumes "searchParams_get ''cursor'' (searchParams (url request)) = Some cursor"
  shows "(\<forall>v. Call_firstCursor v \<notin> set (fst r)) \<and>
         (\<forall>v. Call_counter v \<notin> set (fst r)) \<and>
         (\<forall>v. Call_lastCursor v \<notin> set (fst r)) \<and>
         (\<forall>callbacks. collectionCallbacks = Some callbacks \<longrightarrow>
            (\<exists>rest. fst r = Call_dispatcher (Some cursor)
                               (dispatcher callbacks ctx handle (Some cursor) filter_v) # rest \<and>
                    (\<forall>c p. Call_dispatcher c p \<notin> set rest))) \<and>
         (\<forall>b. Call_authorizePredicate b \<in> set (fst r) \<longrightarrow>
            (\<exists>callbacks p. collectionCallbacks = Some callbacks \<and>
               authorizePredicate callbacks = Some p \<and> acceptsJsonLd request \<and>
               b = p ctx handle (getSignedKey ctx) (getSignedKeyOwner ctx)))"
  using assms(2-) unfolding r_def
  by (auto simp: responder_defs split: option.splits)

theorem page_request_callbacks_witness:
  "searchParams_get ''cursor'' (searchParams (url ex_page_request)) = Some ''p5'' \<and>
   (\<forall>v. Call_firstCursor v
      \<notin> set (fst (ex_collection ex_page_request ex_page_context ex_guarded_callbacks))) \<and>
   (\<forall>v. Call_counter v
      \<notin> set (fst (ex_collection ex_page_request ex_page_context ex_guarded_callbacks))) \<and>
   (\<forall>v. Call_lastCursor v
      \<notin> set (fst (ex_collection ex_page_request ex_page_context ex_guarded_callbacks))) \<and>
   fst (ex_collection ex_page_request ex_page_context ex_guarded_callbacks) =
     [Call_dispatcher (Some ''p5'') (Some ex_page), Call_acceptsJsonLd True,
      Call_getSignedKey, Call_getSignedKeyOwner, Call_authorizePredicate True]"
proof -
  have h: "searchParams_get ''cursor'' (searchParams (url ex_page_request)) = Some ''p5''"
    by (simp add: ex_page_request_def ex_page_url_def)
  have trace: "fst (handleCollection ex_page_request ''followers'' ''alice'' None None
        ex_page_context (Some ex_guarded_callbacks) ex_onUnauthorized ex_onNotFound
        ex_onNotAcceptable) =
     [Call_dispatcher (Some ''p5'') (Some ex_page), Call_acceptsJsonLd True,
      Call_getSignedKey, Call_getSignedKeyOwner, Call_authorizePredicate True]"
    by (simp add: ex_defs responder_defs acceptsJsonLd_def accepts_def)
  note frame = page_request_callbacks [where name = "''followers''" and handle = "''alice''"
      and filter_v = None and filterPredicate = None and ctx = ex_page_context
      and collectionCallbacks = "Some ex_guarded_callbacks"
      and onUnauthorized = ex_onUnauthorized and onNotFound = ex_onNotFound
      and onNotAcceptable = ex_onNotAcceptable, OF h]
  note first = frame [THEN conjunct1]
  note count = frame [THEN conjunct2, THEN conjunct1]
  note last = frame [THEN conjunct2, THEN conjunct2, THEN conjunct1]
  show ?thesis
    unfolding ex_collection_def
    by (intro conjI h first count last trace)
qed

text \<open>
  C10 as stated has the dispatcher as the only collection callback called: for a
  request with a \<open>cursor\<close> parameter and the header \<open>Accept: application/activity+json\<close>, the
  authorization predicate of the callbacks is called as well.
\<close>

theorem page_request_authorizePredicate_counterexample:
  "searchParams_get ''cursor'' (searchParams (url ex_page_request)) = Some ''p5'' \<and>
   acceptHeader ex_page_request = Some [''application/activity+json''] \<and>
   authorizePredicate ex_guarded_callbacks \<noteq> None \<and>
   fst (ex_collection ex_page_request ex_page_context ex_guarded_callbacks) =
     [Call_dispatcher (Some ''p5'') (Some ex_page), Call_acceptsJsonLd True,
      Call_getSignedKey, Call_getSignedKeyOwner, Call_authorizePredicate True]"
  by (simp add: ex_defs responder_defs acceptsJsonLd_def accepts_def)

end
